theory Spec2Isabelle
  imports Complex_Main
begin

section \<open>JavaScript values and option objects\<close>

text \<open>
  A JavaScript number is either \<open>NaN\<close> or a finite value (the infinities never arise in the
  code modelled here). Finite values are reals: every number the program handles is a literal,
  a file size, a list length, the result of \<open>parseInt\<close>, or a quotient of such by 1024 or by a
  worker count, and the model reads the arithmetic as exact.
\<close>

datatype jsnum = NaN | Fin real

datatype jsval = Undefined | Num jsnum | Bool bool | Str string

text \<open>
  An options object (\<open>ConversionOptions\<close>, or the \<open>any\<close>-typed \<open>conversionOptions\<close> and
  \<open>options\<close> of the callers) is a finite map from its own property names to values. A property
  that is present with the value \<open>undefined\<close> is different from an absent one: the object
  spread copies it.
\<close>

type_synonym jsobj = "string \<rightharpoonup> jsval"

definition js_get :: "jsobj \<Rightarrow> string \<Rightarrow> jsval" where
  \<comment> \<open>property read \<open>obj.k\<close>\<close>
  "js_get obj k = (case obj k of None \<Rightarrow> Undefined | Some v \<Rightarrow> v)"

definition spread :: "jsobj \<Rightarrow> jsobj \<Rightarrow> jsobj" where
  \<comment> \<open>\<open>{ ...a, ...b }\<close>: own properties of \<open>a\<close>, then those of \<open>b\<close> over them\<close>
  "spread a b = a ++ b"

fun truthy :: "jsval \<Rightarrow> bool" where
  "truthy Undefined = False"
| "truthy (Num NaN) = False"
| "truthy (Num (Fin x)) = (x \<noteq> 0)"
| "truthy (Bool b) = b"
| "truthy (Str s) = (s \<noteq> [])"

text \<open>Typed optional fields (\<open>threshold?: number\<close>) that are only read: \<open>None\<close> is \<open>undefined\<close>.\<close>

definition truthy_num :: "jsnum option \<Rightarrow> bool" where
  "truthy_num v = (case v of None \<Rightarrow> False | Some n \<Rightarrow> truthy (Num n))"

definition truthy_str :: "string option \<Rightarrow> bool" where
  "truthy_str v = (case v of None \<Rightarrow> False | Some s \<Rightarrow> truthy (Str s))"

definition truthy_bool :: "bool option \<Rightarrow> bool" where
  "truthy_bool v = (case v of None \<Rightarrow> False | Some b \<Rightarrow> b)"

section \<open>Strings\<close>

text \<open>
  \<open>String.prototype.replace\<close> with a string pattern replaces the first occurrence only
  (the replacement strings used by the converter contain no \<open>$\<close>).
\<close>

fun replace_first :: "string \<Rightarrow> string \<Rightarrow> string \<Rightarrow> string" where
  "replace_first pat rep [] = (if pat = [] then rep else [])"
| "replace_first pat rep (c # cs) =
     (if take (length pat) (c # cs) = pat then rep @ drop (length pat) (c # cs)
      else c # replace_first pat rep cs)"

definition digit_char :: "nat \<Rightarrow> char" where
  "digit_char d = ''0123456789'' ! d"

text \<open>The decimal text of a non-negative integer, as a template literal prints \<open>Date.now()\<close>.\<close>

function show_nat :: "nat \<Rightarrow> string" where
  "show_nat n = (if n < 10 then [digit_char n] else show_nat (n div 10) @ [digit_char (n mod 10)])"
  by pat_completeness auto
termination
  by (relation "measure id") auto

declare show_nat.simps [simp del]

definition to_lower :: "char \<Rightarrow> char" where
  "to_lower c =
     (case map_of (zip ''ABCDEFGHIJKLMNOPQRSTUVWXYZ'' ''abcdefghijklmnopqrstuvwxyz'') c of
        None \<Rightarrow> c
      | Some l \<Rightarrow> l)"

definition ends_with_png_ci :: "string \<Rightarrow> bool" where
  \<comment> \<open>\<open>item.toLowerCase().endsWith('.png')\<close>, and the match of \<open>/\.png$/i\<close>\<close>
  "ends_with_png_ci s = (4 \<le> length s \<and> map to_lower (drop (length s - 4) s) = ''.png'')"

definition replace_png_ext :: "string \<Rightarrow> string" where
  \<comment> \<open>\<open>relativePath.replace(/\.png$/i, '.svg')\<close>\<close>
  "replace_png_ext s = (if ends_with_png_ci s then take (length s - 4) s @ ''.svg'' else s)"

text \<open>
  \<open>parseInt\<close> with no radix: leading white space, an optional sign, an optional \<open>0x\<close> prefix,
  then the longest run of digits; \<open>NaN\<close> when there is none.
\<close>

definition is_space :: "char \<Rightarrow> bool" where
  "is_space c = (c \<in> {CHR '' '', CHR 0x09, CHR 0x0A, CHR 0x0B, CHR 0x0C, CHR 0x0D})"

definition digit_val :: "char \<Rightarrow> nat option" where
  "digit_val c =
     (let n = (of_char c :: nat)
      in if 48 \<le> n \<and> n \<le> 57 then Some (n - 48)
         else if 97 \<le> n \<and> n \<le> 122 then Some (n - 87)
         else if 65 \<le> n \<and> n \<le> 90 then Some (n - 55)
         else None)"

definition is_digit :: "nat \<Rightarrow> char \<Rightarrow> bool" where
  "is_digit radix c = (case digit_val c of None \<Rightarrow> False | Some d \<Rightarrow> d < radix)"

definition digits_value :: "nat \<Rightarrow> string \<Rightarrow> nat" where
  "digits_value radix ds = foldl (\<lambda>a c. a * radix + (case digit_val c of None \<Rightarrow> 0 | Some d \<Rightarrow> d)) 0 ds"

definition parseInt :: "string \<Rightarrow> jsnum" where
  "parseInt s =
     (let t = dropWhile is_space s;
          neg = (take 1 t = ''-'');
          u = (if take 1 t = ''-'' \<or> take 1 t = ''+'' then drop 1 t else t);
          hex = (take 2 u = ''0x'' \<or> take 2 u = ''0X'');
          radix = (if hex then 16 else 10);
          ds = takeWhile (is_digit radix) (if hex then drop 2 u else u)
      in if ds = [] then NaN
         else Fin ((if neg then -1 else 1) * real (digits_value radix ds)))"

section \<open>The converter facade (converter.ts)\<close>

subsection \<open>Defaults and presets\<close>

definition defaultOptions :: jsobj where
  "defaultOptions =
     [''threshold'' \<mapsto> Num (Fin 128),
      ''turdSize'' \<mapsto> Num (Fin 2),
      ''alphaMax'' \<mapsto> Num (Fin 1),
      ''optCurve'' \<mapsto> Bool True,
      ''optTolerance'' \<mapsto> Num (Fin 0.2),
      ''turnPolicy'' \<mapsto> Str ''minority'',
      ''blackOnWhite'' \<mapsto> Bool True]"

definition getPresetOptions :: "string \<Rightarrow> jsobj" where
  "getPresetOptions preset =
     (if preset = ''logo'' then
        [''threshold'' \<mapsto> Num (Fin 128), ''turdSize'' \<mapsto> Num (Fin 2), ''optCurve'' \<mapsto> Bool True,
         ''optTolerance'' \<mapsto> Num (Fin 0.2), ''turnPolicy'' \<mapsto> Str ''minority'']
      else if preset = ''photo'' then
        [''threshold'' \<mapsto> Num (Fin 120), ''turdSize'' \<mapsto> Num (Fin 4), ''optCurve'' \<mapsto> Bool True,
         ''optTolerance'' \<mapsto> Num (Fin 0.3), ''turnPolicy'' \<mapsto> Str ''majority'']
      else if preset = ''drawing'' then
        [''threshold'' \<mapsto> Num (Fin 140), ''turdSize'' \<mapsto> Num (Fin 1), ''optCurve'' \<mapsto> Bool True,
         ''optTolerance'' \<mapsto> Num (Fin 0.1), ''turnPolicy'' \<mapsto> Str ''minority'']
      else if preset = ''text'' then
        [''threshold'' \<mapsto> Num (Fin 128), ''turdSize'' \<mapsto> Num (Fin 1), ''optCurve'' \<mapsto> Bool False,
         ''optTolerance'' \<mapsto> Num (Fin 0.1), ''turnPolicy'' \<mapsto> Str ''black'']
      else Map.empty)"

subsection \<open>Images, files and the outside world\<close>

text \<open>
  The image library (Jimp) and the tracer (potrace) are external. An image is the decoded
  source bitmap together with the operations called on it so far, in call order; the tracer
  is a parameter that maps such an image and an options object to SVG text or to an error
  message.
\<close>

datatype img_op = Greyscale | Contrast real | Normalize | Threshold jsval

record image =
  bitmap :: "nat list"
  applied :: "img_op list"

definition jimp_greyscale :: "image \<Rightarrow> image" where
  "jimp_greyscale img = img\<lparr>applied := applied img @ [Greyscale]\<rparr>"

definition jimp_contrast :: "real \<Rightarrow> image \<Rightarrow> image" where
  "jimp_contrast v img = img\<lparr>applied := applied img @ [Contrast v]\<rparr>"

definition jimp_normalize :: "image \<Rightarrow> image" where
  "jimp_normalize img = img\<lparr>applied := applied img @ [Normalize]\<rparr>"

definition jimp_threshold :: "jsval \<Rightarrow> image \<Rightarrow> image" where
  \<comment> \<open>\<open>threshold({ max: v })\<close>\<close>
  "jimp_threshold v img = img\<lparr>applied := applied img @ [Threshold v]\<rparr>"

datatype content = Png image | Text string | Junk

datatype error =
  ReadError | WriteError string | UnlinkError string | TraceError string
  | MkdirError string | StatError string | ReaddirError string

datatype log_entry =
  LogConverting string | LogDimensions | LogSuccess string
  | ErrConversionFailed error | ErrBufferFailed error | WarnCleanup string

record world =
  disk :: "string \<rightharpoonup> content"
  console :: "log_entry list"

record env =
  writable :: "string \<Rightarrow> bool"
  removable :: "string \<Rightarrow> bool"
  tracer :: "image \<Rightarrow> jsobj \<Rightarrow> string + string"

text \<open>
  An awaited call resolves, rejects, or never settles (neither \<open>resolve\<close> nor \<open>reject\<close> is
  ever called). Every stateful operation also returns the world it leaves behind.
\<close>

datatype 'a outcome = Resolved 'a | Rejected error | Unsettled

definition say :: "log_entry \<Rightarrow> world \<Rightarrow> world" where
  "say l w = w\<lparr>console := console w @ [l]\<rparr>"

definition jimp_read_buffer :: "content \<Rightarrow> error + image" where
  "jimp_read_buffer c = (case c of Png img \<Rightarrow> Inr img | _ \<Rightarrow> Inl ReadError)"

definition jimp_read :: "world \<Rightarrow> string \<Rightarrow> error + image" where
  "jimp_read w path = (case disk w path of None \<Rightarrow> Inl ReadError | Some c \<Rightarrow> jimp_read_buffer c)"

definition write_file :: "env \<Rightarrow> string \<Rightarrow> content \<Rightarrow> world \<Rightarrow> error + world" where
  "write_file e path c w =
     (if writable e path then Inr (w\<lparr>disk := (disk w)(path \<mapsto> c)\<rparr>) else Inl (WriteError path))"

definition unlinkSync :: "env \<Rightarrow> string \<Rightarrow> world \<Rightarrow> error + world" where
  "unlinkSync e path w =
     (if disk w path \<noteq> None \<and> removable e path
      then Inr (w\<lparr>disk := (disk w)(path := None)\<rparr>) else Inl (UnlinkError path))"

definition potrace_trace :: "env \<Rightarrow> world \<Rightarrow> string \<Rightarrow> jsobj \<Rightarrow> error + string" where
  \<comment> \<open>the \<open>(err, svg)\<close> the tracer hands to its callback\<close>
  "potrace_trace e w path opts =
     (case jimp_read w path of
        Inl _ \<Rightarrow> Inl (TraceError ''unreadable'')
      | Inr img \<Rightarrow> (case tracer e img opts of Inl m \<Rightarrow> Inl (TraceError m) | Inr svg \<Rightarrow> Inr svg))"

subsection \<open>convertFile\<close>

definition convertFile_processed :: "image \<Rightarrow> jsobj \<Rightarrow> image" where
  \<comment> \<open>lines 41 to 47: the preprocessing of \<open>convertFile\<close>\<close>
  "convertFile_processed img options =
     (let processedImage = jimp_normalize (jimp_contrast 0.3 (jimp_greyscale img));
          opts = spread defaultOptions options
      in if js_get opts ''threshold'' \<noteq> Undefined
         then jimp_threshold (js_get opts ''threshold'') processedImage
         else processedImage)"

definition convertFile_tempPath :: "string \<Rightarrow> nat \<Rightarrow> string" where
  \<comment> \<open>line 50, with \<open>now\<close> the value of \<open>Date.now()\<close>\<close>
  "convertFile_tempPath inputPath now =
     replace_first ''.png'' (''.temp_'' @ show_nat now @ ''.png'') inputPath"

definition convertFile ::
  "env \<Rightarrow> nat \<Rightarrow> string \<Rightarrow> string \<Rightarrow> jsobj \<Rightarrow> world \<Rightarrow> unit outcome \<times> world" where
  "convertFile e now inputPath outputPath options w0 =
     (let w1 = say (LogConverting inputPath) w0
      in (case jimp_read w1 inputPath of
            Inl err \<Rightarrow> (Rejected err, say (ErrConversionFailed err) w1)
          | Inr img \<Rightarrow>
             (let processedImage = convertFile_processed img options;
                  opts = spread defaultOptions options;
                  tempPath = convertFile_tempPath inputPath now
              in (case write_file e tempPath (Png processedImage) w1 of
                    Inl err \<Rightarrow> (Rejected err, say (ErrConversionFailed err) w1)
                  | Inr w2 \<Rightarrow>
                     (let w3 = say LogDimensions w2;
                          traced = potrace_trace e w3 tempPath opts
                      in (case unlinkSync e tempPath w3 of
                            Inl _ \<Rightarrow> (Unsettled, w3)
                          | Inr w4 \<Rightarrow>
                             (case traced of
                                Inl err \<Rightarrow> (Rejected err, say (ErrConversionFailed err) w4)
                              | Inr svgContent \<Rightarrow>
                                 (case write_file e outputPath (Text svgContent) w4 of
                                    Inl err \<Rightarrow> (Rejected err, say (ErrConversionFailed err) w4)
                                  | Inr w5 \<Rightarrow>
                                     (Resolved (), say (LogSuccess outputPath) w5)))))))))"

subsection \<open>convertBuffer\<close>

definition convertImageToSvg_processed :: "image \<Rightarrow> jsobj \<Rightarrow> image" where
  \<comment> \<open>lines 104 to 112\<close>
  "convertImageToSvg_processed img options =
     (let opts = spread defaultOptions options;
          processedImage = jimp_normalize (jimp_contrast 0.3 (jimp_greyscale img))
      in if js_get opts ''threshold'' \<noteq> Undefined
         then jimp_threshold (js_get opts ''threshold'') processedImage
         else processedImage)"




section \<open>The REST convert handler (server.ts)\<close>

text \<open>
  The handler reads the text fields of a multipart form, which arrive as strings (the handler
  itself passes them to \<open>parseInt\<close> and compares \<open>optCurve\<close> with \<open>'true'\<close>). A field that was
  not sent is \<open>undefined\<close>.
\<close>

definition server_convert_options :: "(string \<rightharpoonup> string) \<Rightarrow> jsobj" where
  \<comment> \<open>lines 69 to 82 of the \<open>POST /api/convert\<close> handler\<close>
  "server_convert_options body =
     (let options0 = (if truthy_str (body ''preset'')
                      then spread Map.empty (getPresetOptions (the (body ''preset'')))
                      else Map.empty);
          options1 = (if truthy_str (body ''threshold'')
                      then options0(''threshold'' \<mapsto> Num (parseInt (the (body ''threshold''))))
                      else options0);
          options2 = (if truthy_str (body ''turdSize'')
                      then options1(''turdSize'' \<mapsto> Num (parseInt (the (body ''turdSize''))))
                      else options1);
          options3 = (if body ''optCurve'' \<noteq> None
                      then options2(''optCurve'' \<mapsto> Bool (the (body ''optCurve'') = ''true''))
                      else options2)
      in if truthy_str (body ''turnPolicy'')
         then options3(''turnPolicy'' \<mapsto> Str (the (body ''turnPolicy'')))
         else options3)"

section \<open>The bulk driver (bulk-converter.ts)\<close>

subsection \<open>Options, counters and the runtime\<close>

record size_filter =
  min_kb :: "jsnum option"
  max_kb :: "jsnum option"

record BulkConversionOptions =
  preset :: "string option"
  threshold :: "jsnum option"
  turdSize :: "jsnum option"
  optCurve :: "bool option"
  turnPolicy :: "string option"
  parallel :: "bool option"
  maxWorkers :: "jsnum option"
  recursive :: "bool option"
  overwrite :: "bool option"
  filterSize :: "size_filter option"

record stats =
  total :: nat
  successful :: nat
  failed :: nat
  skipped :: nat
  startTime :: real
  endTime :: real

record file_stat =
  isDirectory :: bool
  isFile :: bool
  size_bytes :: nat

text \<open>
  The driver runs against Node's \<open>fs\<close>, \<open>path\<close> and \<open>performance\<close> modules and against its
  converter member. They are parameters, over any type \<open>'w\<close> of outside worlds; a call of the
  converter settles or not and leaves a new world.
\<close>

record 'w runtime =
  existsSync :: "'w \<Rightarrow> string \<Rightarrow> bool"
  mkdirSync :: "string \<Rightarrow> 'w \<Rightarrow> error + 'w"
  readdirSync :: "'w \<Rightarrow> string \<Rightarrow> error + string list"
  statSync :: "'w \<Rightarrow> string \<Rightarrow> error + file_stat"
  path_join :: "string \<Rightarrow> string \<Rightarrow> string"
  path_relative :: "string \<Rightarrow> string \<Rightarrow> string"
  path_dirname :: "string \<Rightarrow> string"
  performance_now :: "'w \<Rightarrow> real"
  converter_convertFile :: "string \<Rightarrow> string \<Rightarrow> jsobj \<Rightarrow> 'w \<Rightarrow> unit outcome \<times> 'w"

text \<open>
  A \<open>BulkConverter\<close> instance and what it acts on: its counters, the outside world, and two
  histories kept for the statements below, the calls made to the converter (input path, output
  path, options) and the counters each printed summary showed.
\<close>

record 'w bulk =
  stats :: stats
  sys :: 'w
  invoked :: "(string \<times> string \<times> jsobj) list"
  summaries :: "stats list"


definition inc_skipped :: "'w bulk \<Rightarrow> 'w bulk" where
  "inc_skipped s = s\<lparr>stats := (stats s)\<lparr>skipped := skipped (stats s) + 1\<rparr>\<rparr>"

definition inc_successful :: "'w bulk \<Rightarrow> 'w bulk" where
  "inc_successful s = s\<lparr>stats := (stats s)\<lparr>successful := successful (stats s) + 1\<rparr>\<rparr>"

definition inc_failed :: "'w bulk \<Rightarrow> 'w bulk" where
  "inc_failed s = s\<lparr>stats := (stats s)\<lparr>failed := failed (stats s) + 1\<rparr>\<rparr>"

subsection \<open>findPngFiles\<close>

text \<open>
  The directory walk, as a big-step relation: \<open>searchDir dir files r\<close> says that the walk of
  \<open>dir\<close>, entered with the list \<open>files\<close> collected so far, ends with \<open>r\<close>, the list it leaves or
  the error it throws. A walk that never ends has no result.
\<close>

inductive searchDir :: "'w runtime \<Rightarrow> 'w \<Rightarrow> bool \<Rightarrow> string \<Rightarrow> string list \<Rightarrow> error + string list \<Rightarrow> bool"
  and searchItems ::
    "'w runtime \<Rightarrow> 'w \<Rightarrow> bool \<Rightarrow> string \<Rightarrow> string list \<Rightarrow> string list \<Rightarrow> error + string list \<Rightarrow> bool"
  for rt :: "'w runtime" and w :: 'w and recursive_flag :: bool
where
  readdir_throws:
    "readdirSync rt w currentDir = Inl e \<Longrightarrow> searchDir rt w recursive_flag currentDir files (Inl e)"
| readdir_items:
    "readdirSync rt w currentDir = Inr items \<Longrightarrow>
     searchItems rt w recursive_flag currentDir items files r \<Longrightarrow>
     searchDir rt w recursive_flag currentDir files r"
| items_done:
    "searchItems rt w recursive_flag currentDir [] files (Inr files)"
| stat_throws:
    "statSync rt w (path_join rt currentDir item) = Inl e \<Longrightarrow>
     searchItems rt w recursive_flag currentDir (item # items) files (Inl e)"
| subdir_throws:
    "statSync rt w (path_join rt currentDir item) = Inr st \<Longrightarrow>
     isDirectory st \<and> recursive_flag \<Longrightarrow>
     searchDir rt w recursive_flag (path_join rt currentDir item) files (Inl e) \<Longrightarrow>
     searchItems rt w recursive_flag currentDir (item # items) files (Inl e)"
| subdir_walked:
    "statSync rt w (path_join rt currentDir item) = Inr st \<Longrightarrow>
     isDirectory st \<and> recursive_flag \<Longrightarrow>
     searchDir rt w recursive_flag (path_join rt currentDir item) files (Inr files') \<Longrightarrow>
     searchItems rt w recursive_flag currentDir items files' r \<Longrightarrow>
     searchItems rt w recursive_flag currentDir (item # items) files r"
| png_found:
    "statSync rt w (path_join rt currentDir item) = Inr st \<Longrightarrow>
     \<not> (isDirectory st \<and> recursive_flag) \<Longrightarrow>
     isFile st \<and> ends_with_png_ci item \<Longrightarrow>
     searchItems rt w recursive_flag currentDir items (files @ [path_join rt currentDir item]) r \<Longrightarrow>
     searchItems rt w recursive_flag currentDir (item # items) files r"
| other_item:
    "statSync rt w (path_join rt currentDir item) = Inr st \<Longrightarrow>
     \<not> (isDirectory st \<and> recursive_flag) \<Longrightarrow>
     \<not> (isFile st \<and> ends_with_png_ci item) \<Longrightarrow>
     searchItems rt w recursive_flag currentDir items files r \<Longrightarrow>
     searchItems rt w recursive_flag currentDir (item # items) files r"

definition findPngFiles :: "'w runtime \<Rightarrow> 'w \<Rightarrow> string \<Rightarrow> bool option \<Rightarrow> error + string list \<Rightarrow> bool" where
  \<comment> \<open>the parameter default \<open>recursive = false\<close> stands for \<open>undefined\<close>\<close>
  "findPngFiles rt w dir recursive_opt r =
     searchDir rt w (case recursive_opt of None \<Rightarrow> False | Some b \<Rightarrow> b) dir [] r"

subsection \<open>filterBySize\<close>

fun num_lt :: "jsnum \<Rightarrow> jsnum \<Rightarrow> bool" where
  \<comment> \<open>\<open>a < b\<close> on numbers: false as soon as one side is \<open>NaN\<close>\<close>
  "num_lt (Fin a) (Fin b) = (a < b)"
| "num_lt _ _ = False"

fun filterBySize_loop ::
  "'w runtime \<Rightarrow> 'w \<Rightarrow> size_filter \<Rightarrow> string list \<Rightarrow> string list \<Rightarrow> error + string list" where
  "filterBySize_loop rt w sizeFilter [] filtered = Inr filtered"
| "filterBySize_loop rt w sizeFilter (file # files) filtered =
     (case statSync rt w file of
        Inl e \<Rightarrow> Inl e
      | Inr st \<Rightarrow>
         (let sizeKB = Fin (real (size_bytes st) / 1024)
          in if truthy_num (min_kb sizeFilter) \<and> num_lt sizeKB (the (min_kb sizeFilter))
             then filterBySize_loop rt w sizeFilter files filtered
             else if truthy_num (max_kb sizeFilter) \<and> num_lt (the (max_kb sizeFilter)) sizeKB
             then filterBySize_loop rt w sizeFilter files filtered
             else filterBySize_loop rt w sizeFilter files (filtered @ [file])))"

definition filterBySize ::
  "'w runtime \<Rightarrow> 'w \<Rightarrow> string list \<Rightarrow> size_filter option \<Rightarrow> error + string list" where
  "filterBySize rt w files sizeFilter =
     (case sizeFilter of
        None \<Rightarrow> Inr files
      | Some sf \<Rightarrow> filterBySize_loop rt w sf files [])"

subsection \<open>Option assembly and the sequential loop\<close>

definition convertSequentially_options :: "BulkConversionOptions \<Rightarrow> jsobj" where
  \<comment> \<open>lines 148 to 158\<close>
  "convertSequentially_options options =
     (let c0 = (if truthy_str (preset options) then getPresetOptions (the (preset options))
                else Map.empty);
          c1 = (if truthy_num (threshold options)
                then c0(''threshold'' \<mapsto> Num (the (threshold options))) else c0);
          c2 = (if truthy_num (turdSize options)
                then c1(''turdSize'' \<mapsto> Num (the (turdSize options))) else c1);
          c3 = (if optCurve options \<noteq> None
                then c2(''optCurve'' \<mapsto> Bool (the (optCurve options))) else c2)
      in if truthy_str (turnPolicy options)
         then c3(''turnPolicy'' \<mapsto> Str (the (turnPolicy options))) else c3)"

definition outputPath_of :: "'w runtime \<Rightarrow> string \<Rightarrow> string \<Rightarrow> string \<Rightarrow> string" where
  \<comment> \<open>\<open>path.join(outputDir, path.relative(inputDir, file).replace(/\.png$/i, '.svg'))\<close>\<close>
  "outputPath_of rt inputDir outputDir file =
     path_join rt outputDir (replace_png_ext (path_relative rt inputDir file))"

definition ensure_dir :: "'w runtime \<Rightarrow> string \<Rightarrow> 'w \<Rightarrow> error + 'w" where
  \<comment> \<open>\<open>if (!fs.existsSync(d)) fs.mkdirSync(d, { recursive: true })\<close>\<close>
  "ensure_dir rt d w = (if \<not> existsSync rt w d then mkdirSync rt d w else Inr w)"

fun convertSequentially_loop ::
  "'w runtime \<Rightarrow> string \<Rightarrow> string \<Rightarrow> BulkConversionOptions \<Rightarrow> jsobj \<Rightarrow> string list \<Rightarrow> 'w bulk
     \<Rightarrow> unit outcome \<times> 'w bulk" where
  "convertSequentially_loop rt inputDir outputDir options conversionOptions [] s = (Resolved (), s)"
| "convertSequentially_loop rt inputDir outputDir options conversionOptions (file # files) s =
     (let outputPath = outputPath_of rt inputDir outputDir file
      in if \<not> truthy_bool (overwrite options) \<and> existsSync rt (sys s) outputPath
         then convertSequentially_loop rt inputDir outputDir options conversionOptions files
                (inc_skipped s)
         else (case ensure_dir rt (path_dirname rt outputPath) (sys s) of
                 Inl e \<Rightarrow> (Rejected e, s)
               | Inr w1 \<Rightarrow>
                  (let s1 = s\<lparr>sys := w1, invoked := invoked s @ [(file, outputPath, conversionOptions)]\<rparr>
                   in (case converter_convertFile rt file outputPath conversionOptions w1 of
                         (Resolved _, w2) \<Rightarrow>
                           convertSequentially_loop rt inputDir outputDir options conversionOptions
                             files (inc_successful (s1\<lparr>sys := w2\<rparr>))
                       | (Rejected _, w2) \<Rightarrow>
                           convertSequentially_loop rt inputDir outputDir options conversionOptions
                             files (inc_failed (s1\<lparr>sys := w2\<rparr>))
                       | (Unsettled, w2) \<Rightarrow> (Unsettled, s1\<lparr>sys := w2\<rparr>)))))"

definition convertSequentially ::
  "'w runtime \<Rightarrow> string list \<Rightarrow> string \<Rightarrow> string \<Rightarrow> BulkConversionOptions \<Rightarrow> 'w bulk
     \<Rightarrow> unit outcome \<times> 'w bulk" where
  "convertSequentially rt files inputDir outputDir options s =
     convertSequentially_loop rt inputDir outputDir options (convertSequentially_options options)
       files s"

subsection \<open>Parallel mode: chunks and their tasks\<close>

definition js_slice :: "'a list \<Rightarrow> int \<Rightarrow> int \<Rightarrow> 'a list" where
  \<comment> \<open>\<open>array.slice(start, end)\<close>: negative indices count from the end, all are clamped\<close>
  "js_slice xs start end' =
     (let len = int (length xs);
          k = (if start < 0 then max (len + start) 0 else min start len);
          final = (if end' < 0 then max (len + end') 0 else min end' len)
      in take (nat (final - k)) (drop (nat k) xs))"

partial_function (option) chunkArray_loop ::
  "'a list \<Rightarrow> int \<Rightarrow> int \<Rightarrow> 'a list list \<Rightarrow> 'a list list option" where
  "chunkArray_loop array chunkSize i chunks =
     (if i < int (length array)
      then chunkArray_loop array chunkSize (i + chunkSize)
             (chunks @ [js_slice array i (i + chunkSize)])
      else Some chunks)"

definition chunkArray :: "'a list \<Rightarrow> int \<Rightarrow> 'a list list option" where
  \<comment> \<open>\<open>None\<close>: the loop never ends\<close>
  "chunkArray array chunkSize = chunkArray_loop array chunkSize 0 []"

definition convertInParallel_maxWorkers :: "BulkConversionOptions \<Rightarrow> 'a list \<Rightarrow> jsnum" where
  \<comment> \<open>\<open>options.maxWorkers || Math.min(4, files.length)\<close>\<close>
  "convertInParallel_maxWorkers options files =
     (if truthy_num (maxWorkers options) then the (maxWorkers options)
      else Fin (real (min 4 (length files))))"

definition convertInParallel_chunkSize :: "BulkConversionOptions \<Rightarrow> 'a list \<Rightarrow> int" where
  \<comment> \<open>\<open>Math.ceil(files.length / maxWorkers)\<close>; the divisor is finite and not zero whenever
      the list is not empty\<close>
  "convertInParallel_chunkSize options files =
     (case convertInParallel_maxWorkers options files of
        Fin x \<Rightarrow> \<lceil>real (length files) / x\<rceil>
      | NaN \<Rightarrow> 0)"

definition processChunk_options :: "BulkConversionOptions \<Rightarrow> jsobj" where
  \<comment> \<open>lines 231 to 241\<close>
  "processChunk_options options =
     (let c0 = (if truthy_str (preset options) then getPresetOptions (the (preset options))
                else Map.empty);
          c1 = (if truthy_num (threshold options)
                then c0(''threshold'' \<mapsto> Num (the (threshold options))) else c0);
          c2 = (if truthy_num (turdSize options)
                then c1(''turdSize'' \<mapsto> Num (the (turdSize options))) else c1);
          c3 = (if optCurve options \<noteq> None
                then c2(''optCurve'' \<mapsto> Bool (the (optCurve options))) else c2)
      in if truthy_str (turnPolicy options)
         then c3(''turnPolicy'' \<mapsto> Str (the (turnPolicy options))) else c3)"

text \<open>
  One pass of the loop of \<open>processChunk\<close> has two parts, with the awaited conversion between
  them. \<open>processChunk_begin\<close> runs up to the call of the converter: it skips the file, or throws
  from \<open>mkdirSync\<close>, or makes the call. \<open>processChunk_finish\<close> is the return of that call: the
  world the conversion leaves and the counter it bumps; \<open>False\<close> when the call never settles.
\<close>

definition processChunk_begin ::
  "'w runtime \<Rightarrow> string \<Rightarrow> string \<Rightarrow> BulkConversionOptions \<Rightarrow> jsobj \<Rightarrow> string \<Rightarrow> 'w bulk
     \<Rightarrow> error + ((string \<times> string) option \<times> 'w bulk)" where
  "processChunk_begin rt inputDir outputDir options conversionOptions file s =
     (let outputPath = outputPath_of rt inputDir outputDir file
      in if \<not> truthy_bool (overwrite options) \<and> existsSync rt (sys s) outputPath
         then Inr (None, inc_skipped s)
         else (case ensure_dir rt (path_dirname rt outputPath) (sys s) of
                 Inl e \<Rightarrow> Inl e
               | Inr w1 \<Rightarrow>
                   Inr (Some (file, outputPath),
                        s\<lparr>sys := w1, invoked := invoked s @ [(file, outputPath, conversionOptions)]\<rparr>)))"

definition processChunk_finish ::
  "'w runtime \<Rightarrow> jsobj \<Rightarrow> string \<times> string \<Rightarrow> 'w bulk \<Rightarrow> bool \<times> 'w bulk" where
  "processChunk_finish rt conversionOptions call s =
     (case converter_convertFile rt (fst call) (snd call) conversionOptions (sys s) of
        (Resolved _, w2) \<Rightarrow> (True, inc_successful (s\<lparr>sys := w2\<rparr>))
      | (Rejected _, w2) \<Rightarrow> (True, inc_failed (s\<lparr>sys := w2\<rparr>))
      | (Unsettled, w2) \<Rightarrow> (False, s\<lparr>sys := w2\<rparr>))"



text \<open>
  The chunks of \<open>convertInParallel\<close> run as interleaved tasks. A task is a chunk's remaining
  files and, while a conversion is awaited, the pending call; \<open>Stalled\<close> is a task whose
  conversion never settles. A step takes any task and runs one part of its current pass.
  \<open>Promise.all\<close> resolves when every task is done, rejects as soon as one throws, and stays
  unsettled when the tasks that are left are stalled.
\<close>

datatype task = Task "(string \<times> string) option" "string list" | Stalled

fun task_done :: "task \<Rightarrow> bool" where
  "task_done (Task None []) = True"
| "task_done _ = False"

fun task_idle :: "task \<Rightarrow> bool" where
  "task_idle (Task None []) = True"
| "task_idle Stalled = True"
| "task_idle _ = False"

inductive tasks_run ::
  "'w runtime \<Rightarrow> string \<Rightarrow> string \<Rightarrow> BulkConversionOptions \<Rightarrow> jsobj \<Rightarrow> task list \<Rightarrow> 'w bulk
     \<Rightarrow> unit outcome \<times> 'w bulk \<Rightarrow> bool"
  for rt :: "'w runtime" and inputDir outputDir :: string and options :: BulkConversionOptions
    and conversionOptions :: jsobj
where
  all_done:
    "list_all task_done pool \<Longrightarrow>
     tasks_run rt inputDir outputDir options conversionOptions pool s (Resolved (), s)"
| all_idle:
    "list_all task_idle pool \<Longrightarrow> \<not> list_all task_done pool \<Longrightarrow>
     tasks_run rt inputDir outputDir options conversionOptions pool s (Unsettled, s)"
| begin_throws:
    "k < length pool \<Longrightarrow> pool ! k = Task None (file # files) \<Longrightarrow>
     processChunk_begin rt inputDir outputDir options conversionOptions file s = Inl e \<Longrightarrow>
     tasks_run rt inputDir outputDir options conversionOptions pool s (Rejected e, s)"
| begin_step:
    "k < length pool \<Longrightarrow> pool ! k = Task None (file # files) \<Longrightarrow>
     processChunk_begin rt inputDir outputDir options conversionOptions file s = Inr (call, s1) \<Longrightarrow>
     tasks_run rt inputDir outputDir options conversionOptions (pool[k := Task call files]) s1 r \<Longrightarrow>
     tasks_run rt inputDir outputDir options conversionOptions pool s r"
| finish_step:
    "k < length pool \<Longrightarrow> pool ! k = Task (Some call) files \<Longrightarrow>
     processChunk_finish rt conversionOptions call s = (True, s1) \<Longrightarrow>
     tasks_run rt inputDir outputDir options conversionOptions (pool[k := Task None files]) s1 r \<Longrightarrow>
     tasks_run rt inputDir outputDir options conversionOptions pool s r"
| stall_step:
    "k < length pool \<Longrightarrow> pool ! k = Task (Some call) files \<Longrightarrow>
     processChunk_finish rt conversionOptions call s = (False, s1) \<Longrightarrow>
     tasks_run rt inputDir outputDir options conversionOptions (pool[k := Stalled]) s1 r \<Longrightarrow>
     tasks_run rt inputDir outputDir options conversionOptions pool s r"

definition convertInParallel ::
  "'w runtime \<Rightarrow> string list \<Rightarrow> string \<Rightarrow> string \<Rightarrow> BulkConversionOptions \<Rightarrow> 'w bulk
     \<Rightarrow> unit outcome \<times> 'w bulk \<Rightarrow> bool" where
  "convertInParallel rt files inputDir outputDir options s r =
     (case chunkArray files (convertInParallel_chunkSize options files) of
        None \<Rightarrow> r = (Unsettled, s)
      | Some chunks \<Rightarrow>
          tasks_run rt inputDir outputDir options (processChunk_options options)
            (map (Task None) chunks) s r)"

subsection \<open>convertDirectory\<close>

definition printSummary :: "'w bulk \<Rightarrow> 'w bulk" where
  "printSummary s = s\<lparr>summaries := summaries s @ [stats s]\<rparr>"

definition convertDirectory_finish :: "'w runtime \<Rightarrow> unit outcome \<times> 'w bulk \<Rightarrow> unit outcome \<times> 'w bulk" where
  \<comment> \<open>lines 81 and 82, reached when the awaited conversions resolve\<close>
  "convertDirectory_finish rt r =
     (case r of
        (Resolved _, s) \<Rightarrow>
          (Resolved (),
           printSummary (s\<lparr>stats := (stats s)\<lparr>endTime := performance_now rt (sys s)\<rparr>\<rparr>))
      | _ \<Rightarrow> r)"

inductive convertDirectory ::
  "'w runtime \<Rightarrow> string \<Rightarrow> string \<Rightarrow> BulkConversionOptions \<Rightarrow> 'w bulk
     \<Rightarrow> unit outcome \<times> 'w bulk \<Rightarrow> bool"
  for rt :: "'w runtime" and inputDir outputDir :: string and options :: BulkConversionOptions
where
  find_throws:
    "s1 = s\<lparr>stats := (stats s)\<lparr>startTime := performance_now rt (sys s)\<rparr>\<rparr> \<Longrightarrow>
     findPngFiles rt (sys s1) inputDir (recursive options) (Inl e) \<Longrightarrow>
     convertDirectory rt inputDir outputDir options s (Rejected e, s1)"
| none_found:
    "s1 = s\<lparr>stats := (stats s)\<lparr>startTime := performance_now rt (sys s)\<rparr>\<rparr> \<Longrightarrow>
     findPngFiles rt (sys s1) inputDir (recursive options) (Inr pngFiles) \<Longrightarrow>
     s2 = s1\<lparr>stats := (stats s1)\<lparr>total := length pngFiles\<rparr>\<rparr> \<Longrightarrow>
     length pngFiles = 0 \<Longrightarrow>
     convertDirectory rt inputDir outputDir options s (Resolved (), s2)"
| mkdir_throws:
    "s1 = s\<lparr>stats := (stats s)\<lparr>startTime := performance_now rt (sys s)\<rparr>\<rparr> \<Longrightarrow>
     findPngFiles rt (sys s1) inputDir (recursive options) (Inr pngFiles) \<Longrightarrow>
     s2 = s1\<lparr>stats := (stats s1)\<lparr>total := length pngFiles\<rparr>\<rparr> \<Longrightarrow>
     length pngFiles \<noteq> 0 \<Longrightarrow>
     ensure_dir rt outputDir (sys s2) = Inl e \<Longrightarrow>
     convertDirectory rt inputDir outputDir options s (Rejected e, s2)"
| filter_throws:
    "s1 = s\<lparr>stats := (stats s)\<lparr>startTime := performance_now rt (sys s)\<rparr>\<rparr> \<Longrightarrow>
     findPngFiles rt (sys s1) inputDir (recursive options) (Inr pngFiles) \<Longrightarrow>
     s2 = s1\<lparr>stats := (stats s1)\<lparr>total := length pngFiles\<rparr>\<rparr> \<Longrightarrow>
     length pngFiles \<noteq> 0 \<Longrightarrow>
     ensure_dir rt outputDir (sys s2) = Inr w3 \<Longrightarrow>
     filterBySize rt w3 pngFiles (filterSize options) = Inl e \<Longrightarrow>
     convertDirectory rt inputDir outputDir options s (Rejected e, s2\<lparr>sys := w3\<rparr>)"
| in_parallel:
    "s1 = s\<lparr>stats := (stats s)\<lparr>startTime := performance_now rt (sys s)\<rparr>\<rparr> \<Longrightarrow>
     findPngFiles rt (sys s1) inputDir (recursive options) (Inr pngFiles) \<Longrightarrow>
     s2 = s1\<lparr>stats := (stats s1)\<lparr>total := length pngFiles\<rparr>\<rparr> \<Longrightarrow>
     length pngFiles \<noteq> 0 \<Longrightarrow>
     ensure_dir rt outputDir (sys s2) = Inr w3 \<Longrightarrow>
     filterBySize rt w3 pngFiles (filterSize options) = Inr filteredFiles \<Longrightarrow>
     truthy_bool (parallel options) \<and> length filteredFiles > 1 \<Longrightarrow>
     convertInParallel rt filteredFiles inputDir outputDir options (s2\<lparr>sys := w3\<rparr>) r \<Longrightarrow>
     convertDirectory rt inputDir outputDir options s (convertDirectory_finish rt r)"
| sequentially:
    "s1 = s\<lparr>stats := (stats s)\<lparr>startTime := performance_now rt (sys s)\<rparr>\<rparr> \<Longrightarrow>
     findPngFiles rt (sys s1) inputDir (recursive options) (Inr pngFiles) \<Longrightarrow>
     s2 = s1\<lparr>stats := (stats s1)\<lparr>total := length pngFiles\<rparr>\<rparr> \<Longrightarrow>
     length pngFiles \<noteq> 0 \<Longrightarrow>
     ensure_dir rt outputDir (sys s2) = Inr w3 \<Longrightarrow>
     filterBySize rt w3 pngFiles (filterSize options) = Inr filteredFiles \<Longrightarrow>
     \<not> (truthy_bool (parallel options) \<and> length filteredFiles > 1) \<Longrightarrow>
     r = convertSequentially rt filteredFiles inputDir outputDir options (s2\<lparr>sys := w3\<rparr>) \<Longrightarrow>
     convertDirectory rt inputDir outputDir options s (convertDirectory_finish rt r)"

section \<open>Reference notions for the statements\<close>




definition counted :: "'w bulk \<Rightarrow> nat" where
  "counted s = successful (stats s) + failed (stats s) + skipped (stats s)"


text \<open>
  A small runtime for worked examples: the converter above on its in-memory world, a flat
  directory listing, fixed file sizes, paths joined with a slash, and \<open>mkdirSync\<close> succeeding.
\<close>

definition memory_runtime ::
  "env \<Rightarrow> nat \<Rightarrow> (string \<Rightarrow> string list) \<Rightarrow> (string \<Rightarrow> nat) \<Rightarrow> world runtime" where
  "memory_runtime e now listing sizes =
     \<lparr>existsSync = (\<lambda>w p. disk w p \<noteq> None),
      mkdirSync = (\<lambda>p w. Inr w),
      readdirSync = (\<lambda>w d. Inr (listing d)),
      statSync = (\<lambda>w p. case disk w p of
                           None \<Rightarrow> Inl (StatError p)
                         | Some _ \<Rightarrow> Inr \<lparr>isDirectory = False, isFile = True, size_bytes = sizes p\<rparr>),
      path_join = (\<lambda>a b. a @ ''/'' @ b),
      path_relative = (\<lambda>from to. drop (Suc (length from)) to),
      path_dirname = (\<lambda>p. rev (drop 1 (dropWhile (\<lambda>c. c \<noteq> CHR ''/'') (rev p)))),
      performance_now = (\<lambda>w. real (length (console w))),
      converter_convertFile = convertFile e now\<rparr>"

definition plain_options :: BulkConversionOptions where
  \<comment> \<open>the options object \<open>{}\<close>\<close>
  "plain_options =
     \<lparr>preset = None, threshold = None, turdSize = None, optCurve = None, turnPolicy = None,
      parallel = None, maxWorkers = None, recursive = None, overwrite = None, filterSize = None\<rparr>"

definition demo_env :: env where
  "demo_env = \<lparr>writable = (\<lambda>_. True), removable = (\<lambda>_. True), tracer = (\<lambda>_ _. Inr ''<svg/>'')\<rparr>"

definition demo_world :: world where
  "demo_world =
     \<lparr>disk = [''in/a.png'' \<mapsto> Png \<lparr>bitmap = [0, 255], applied = []\<rparr>,
              ''in/b.png'' \<mapsto> Png \<lparr>bitmap = [255, 0], applied = []\<rparr>,
              ''in/c.png'' \<mapsto> Junk,
              ''in/notes.txt'' \<mapsto> Text ''todo'',
              ''out/b.svg'' \<mapsto> Text ''<svg>old</svg>''],
      console = []\<rparr>"

definition demo_runtime :: "world runtime" where
  "demo_runtime =
     memory_runtime demo_env 7 (\<lambda>_. [''a.png'', ''b.png'', ''c.png'', ''notes.txt''])
       (\<lambda>p. if p = ''in/a.png'' then 512 else 2048)"

section \<open>Properties of the converter facade\<close>

lemma js_get_spread:
  "js_get (spread a b) k = (case b k of None \<Rightarrow> js_get a k | Some v \<Rightarrow> v)"
  by (simp add: js_get_def spread_def map_add_def split: option.splits)

lemma threshold_default: "js_get defaultOptions ''threshold'' = Num (Fin 128)"
  by (simp add: js_get_def defaultOptions_def)

text \<open>
  Claim C1, as the code has it. \<open>convertFile\<close> and \<open>convertImageToSvg\<close> test the threshold of
  the options \<^emph>\<open>after\<close> the defaults have been merged in. So the threshold operation is applied
  with the supplied value when the options carry one, with the default 128 when the options
  have no \<open>threshold\<close> property, and is left out only when the property is present with the
  value \<open>undefined\<close>. It always comes after greyscale, contrast 0.3 and normalize.
\<close>

theorem threshold_step:
  "applied (convertFile_processed img options) =
     applied img @ [Greyscale, Contrast 0.3, Normalize] @
       (case options ''threshold'' of
          None \<Rightarrow> [Threshold (Num (Fin 128))]
        | Some Undefined \<Rightarrow> []
        | Some v \<Rightarrow> [Threshold v])
   \<and> applied (convertImageToSvg_processed img options) =
     applied img @ [Greyscale, Contrast 0.3, Normalize] @
       (case options ''threshold'' of
          None \<Rightarrow> [Threshold (Num (Fin 128))]
        | Some Undefined \<Rightarrow> []
        | Some v \<Rightarrow> [Threshold v])"
  by (simp add: convertFile_processed_def convertImageToSvg_processed_def js_get_spread
      threshold_default jimp_greyscale_def jimp_contrast_def jimp_normalize_def jimp_threshold_def Let_def
      split: option.splits jsval.splits)


text \<open>
  Claim C1 as worded fails: with the threshold unset (the empty options object), a threshold
  operation is applied all the same, and the image that \<open>convertFile\<close> hands to the tracer
  carries it.
\<close>

theorem threshold_unset_counterexample:
  "\<not> (\<forall>options img. options ''threshold'' = None \<longrightarrow>
        (\<forall>v. Threshold v \<notin> set (applied (convertFile_processed img options))))
   \<and> disk (snd (convertFile
        \<lparr>writable = (\<lambda>_. True), removable = (\<lambda>_. True),
         tracer = (\<lambda>img _. if Threshold (Num (Fin 128)) \<in> set (applied img)
                             then Inr ''thresholded at 128'' else Inr ''not thresholded'')\<rparr>
        7 ''a.png'' ''a.svg'' Map.empty
        \<lparr>disk = [''a.png'' \<mapsto> Png \<lparr>bitmap = [0, 255], applied = []\<rparr>], console = []\<rparr>)) ''a.svg''
     = Some (Text ''thresholded at 128'')"
proof
  show "\<not> (\<forall>options img. options ''threshold'' = None \<longrightarrow>
        (\<forall>v. Threshold v \<notin> set (applied (convertFile_processed img options))))"
  proof
    assume a: "\<forall>options img. options ''threshold'' = None \<longrightarrow>
        (\<forall>v. Threshold v \<notin> set (applied (convertFile_processed img options)))"
    have "Threshold (Num (Fin 128))
      \<notin> set (applied (convertFile_processed \<lparr>bitmap = [], applied = []\<rparr> Map.empty))"
      using a by simp
    then show False
      by (simp add: convertFile_processed_def js_get_spread threshold_default jimp_greyscale_def
          jimp_contrast_def jimp_normalize_def jimp_threshold_def Let_def)
  qed
  show "disk (snd (convertFile
        \<lparr>writable = (\<lambda>_. True), removable = (\<lambda>_. True),
         tracer = (\<lambda>img _. if Threshold (Num (Fin 128)) \<in> set (applied img)
                             then Inr ''thresholded at 128'' else Inr ''not thresholded'')\<rparr>
        7 ''a.png'' ''a.svg'' Map.empty
        \<lparr>disk = [''a.png'' \<mapsto> Png \<lparr>bitmap = [0, 255], applied = []\<rparr>], console = []\<rparr>)) ''a.svg''
     = Some (Text ''thresholded at 128'')"
    by (simp add: convertFile_def convertFile_tempPath_def jimp_read_def jimp_read_buffer_def
        write_file_def unlinkSync_def potrace_trace_def say_def show_nat.simps digit_char_def
        Let_def convertFile_processed_def js_get_spread threshold_default jimp_greyscale_def
        jimp_contrast_def jimp_normalize_def jimp_threshold_def)
qed



text \<open>
  Claim C5. \<open>getPresetOptions\<close> is a function of the preset name alone. It returns the fixed
  option values of the four presets logo, photo, drawing and text, and the empty options
  object for every other name; no name is an error.
\<close>

theorem getPresetOptions_lookup:
  "getPresetOptions ''logo'' =
     [''threshold'' \<mapsto> Num (Fin 128), ''turdSize'' \<mapsto> Num (Fin 2), ''optCurve'' \<mapsto> Bool True,
      ''optTolerance'' \<mapsto> Num (Fin 0.2), ''turnPolicy'' \<mapsto> Str ''minority'']
   \<and> getPresetOptions ''photo'' =
     [''threshold'' \<mapsto> Num (Fin 120), ''turdSize'' \<mapsto> Num (Fin 4), ''optCurve'' \<mapsto> Bool True,
      ''optTolerance'' \<mapsto> Num (Fin 0.3), ''turnPolicy'' \<mapsto> Str ''majority'']
   \<and> getPresetOptions ''drawing'' =
     [''threshold'' \<mapsto> Num (Fin 140), ''turdSize'' \<mapsto> Num (Fin 1), ''optCurve'' \<mapsto> Bool True,
      ''optTolerance'' \<mapsto> Num (Fin 0.1), ''turnPolicy'' \<mapsto> Str ''minority'']
   \<and> getPresetOptions ''text'' =
     [''threshold'' \<mapsto> Num (Fin 128), ''turdSize'' \<mapsto> Num (Fin 1), ''optCurve'' \<mapsto> Bool False,
      ''optTolerance'' \<mapsto> Num (Fin 0.1), ''turnPolicy'' \<mapsto> Str ''black'']
   \<and> (\<forall>preset. preset \<notin> {''logo'', ''photo'', ''drawing'', ''text''} \<longrightarrow>
         getPresetOptions preset = Map.empty)"
  by (simp add: getPresetOptions_def)


text \<open>Witness of C5: an unknown preset name, and one documented value read back.\<close>

theorem getPresetOptions_lookup_witness:
  "''banner'' \<notin> {''logo'', ''photo'', ''drawing'', ''text''}
   \<and> getPresetOptions ''banner'' = Map.empty
   \<and> js_get (getPresetOptions ''photo'') ''turdSize'' = Num (Fin 4)"
proof -
  have h: "''banner'' \<notin> {''logo'', ''photo'', ''drawing'', ''text''}" by simp
  have b: "getPresetOptions ''banner'' = Map.empty"
    by (rule getPresetOptions_lookup
        [THEN conjunct2, THEN conjunct2, THEN conjunct2, THEN conjunct2, rule_format])
       (rule h)
  have p: "js_get (getPresetOptions ''photo'') ''turdSize'' = Num (Fin 4)"
    by (simp add: getPresetOptions_lookup [THEN conjunct2, THEN conjunct1] js_get_def)
  from h b p show ?thesis by (intro conjI)
qed

subsection \<open>Failures and the temporary file\<close>

lemma disk_say [simp]: "disk (say l w) = disk w"
  by (simp add: say_def)

lemma console_say [simp]: "console (say l w) = console w @ [l]"
  by (simp add: say_def)

lemma jimp_read_say [simp]: "jimp_read (say l w) p = jimp_read w p"
  by (simp add: jimp_read_def)
















text \<open>
  The temporary path of \<open>convertFile\<close>: the input path itself when it holds no \<open>.png\<close> in
  lower case, a longer path otherwise.
\<close>

lemma replace_first_absent:
  "\<forall>i. take (length pat) (drop i s) \<noteq> pat \<Longrightarrow> replace_first pat rep s = s"
proof (induction s)
  case Nil
  from Nil [rule_format, of 0] show ?case by auto
next
  case (Cons c cs)
  from Cons.prems [rule_format, of 0] have h: "take (length pat) (c # cs) \<noteq> pat" by simp
  have "\<forall>i. take (length pat) (drop i cs) \<noteq> pat"
  proof
    fix i
    from Cons.prems [rule_format, of "Suc i"] show "take (length pat) (drop i cs) \<noteq> pat" by simp
  qed
  with Cons.IH h show ?case by simp
qed

lemma replace_first_present:
  "take (length pat) (drop i s) = pat \<Longrightarrow>
   length (replace_first pat rep s) + length pat = length s + length rep"
proof (induction s arbitrary: i)
  case Nil
  then show ?case by auto
next
  case (Cons c cs)
  show ?case
  proof (cases "take (length pat) (c # cs) = pat")
    case True
    then have "length (take (length pat) (c # cs)) = length pat" by simp
    then have "length pat \<le> length (c # cs)"
      by (simp add: min_def split: if_splits)
    with True show ?thesis by simp
  next
    case False
    with Cons.prems obtain j where "i = Suc j" by (cases i) auto
    with Cons.prems have "take (length pat) (drop j cs) = pat" by simp
    from Cons.IH [OF this] False show ?thesis by simp
  qed
qed

lemma tempPath_without_png:
  assumes "\<forall>i. take 4 (drop i inputPath) \<noteq> ''.png''"
  shows "convertFile_tempPath inputPath now = inputPath"
proof -
  have l: "length ''.png'' = 4" by simp
  have "\<forall>i. take (length ''.png'') (drop i inputPath) \<noteq> ''.png''"
    unfolding l by (rule assms)
  then show ?thesis
    unfolding convertFile_tempPath_def by (rule replace_first_absent)
qed

lemma tempPath_with_png:
  assumes "take 4 (drop i inputPath) = ''.png''"
  shows "length inputPath < length (convertFile_tempPath inputPath now)"
proof -
  have l: "length ''.png'' = 4" by simp
  have "take (length ''.png'') (drop i inputPath) = ''.png''"
    unfolding l by (rule assms)
  from replace_first_present [OF this, of "''.temp_'' @ show_nat now @ ''.png''"]
  show ?thesis by (simp add: convertFile_tempPath_def)
qed

text \<open>
  Claim C2 at the input \<open>photo.PNG\<close>. The pattern \<open>'.png'\<close> of the replacement is
  case-sensitive, so the temporary path of \<open>convertFile\<close> is the input path itself, whatever
  the time stamp: the preprocessed image is written over the source, the callback then removes
  it, and after a successful conversion the source file no longer exists.
\<close>

theorem convertFile_uppercase_extension:
  "convertFile_tempPath ''photo.PNG'' now = ''photo.PNG''
   \<and> fst (convertFile \<lparr>writable = (\<lambda>_. True), removable = (\<lambda>_. True), tracer = (\<lambda>_ _. Inr ''<svg/>'')\<rparr>
         now ''photo.PNG'' ''photo.svg'' Map.empty \<lparr>disk = [''photo.PNG'' \<mapsto> Png img], console = []\<rparr>)
       = Resolved ()
   \<and> disk (snd (convertFile \<lparr>writable = (\<lambda>_. True), removable = (\<lambda>_. True), tracer = (\<lambda>_ _. Inr ''<svg/>'')\<rparr>
         now ''photo.PNG'' ''photo.svg'' Map.empty \<lparr>disk = [''photo.PNG'' \<mapsto> Png img], console = []\<rparr>))
       = [''photo.svg'' \<mapsto> Text ''<svg/>'']"
proof -
  have t: "convertFile_tempPath ''photo.PNG'' now = ''photo.PNG''"
    by (simp add: convertFile_tempPath_def)
  show ?thesis
    by (simp add: t convertFile_def Let_def jimp_read_def jimp_read_buffer_def write_file_def
        potrace_trace_def unlinkSync_def fun_eq_iff)
qed

section \<open>Properties of the bulk driver\<close>

subsection \<open>Chunks\<close>











subsection \<open>Counting\<close>

lemma counted_simps [simp]:
  "counted (inc_skipped s) = Suc (counted s)"
  "counted (inc_successful s) = Suc (counted s)"
  "counted (inc_failed s) = Suc (counted s)"
  "counted (s\<lparr>sys := w\<rparr>) = counted s"
  "counted (s\<lparr>invoked := l\<rparr>) = counted s"
  by (simp_all add: counted_def inc_skipped_def inc_successful_def inc_failed_def)

lemma inc_keeps [simp]:
  "total (stats (inc_skipped s)) = total (stats s)"
  "total (stats (inc_successful s)) = total (stats s)"
  "total (stats (inc_failed s)) = total (stats s)"
  "summaries (inc_skipped s) = summaries s"
  "summaries (inc_successful s) = summaries s"
  "summaries (inc_failed s) = summaries s"
  "invoked (inc_skipped s) = invoked s"
  "invoked (inc_successful s) = invoked s"
  "invoked (inc_failed s) = invoked s"
  "sys (inc_skipped s) = sys s"
  "sys (inc_successful s) = sys s"
  "sys (inc_failed s) = sys s"
  by (simp_all add: inc_skipped_def inc_successful_def inc_failed_def)














subsection \<open>The chunks of parallel mode\<close>






subsection \<open>The tasks can run: the in-order schedule\<close>




subsection \<open>Worked examples\<close>


lemmas runtime_eval =
  memory_runtime_def demo_runtime_def demo_env_def demo_world_def plain_options_def
  outputPath_of_def ensure_dir_def replace_png_ext_def ends_with_png_ci_def
  to_lower_def truthy_bool_def truthy_num_def truthy_str_def










subsection \<open>The counters after a run\<close>









subsection \<open>Skipping and overwriting\<close>





subsection \<open>The size filter\<close>

lemma filterBySize_loop_filter:
  assumes "\<forall>f \<in> set fs. statSync rt w f = Inr (st f)"
  shows "filterBySize_loop rt w sf fs acc =
     Inr (acc @ filter (\<lambda>f.
        \<not> (truthy_num (min_kb sf) \<and> num_lt (Fin (real (size_bytes (st f)) / 1024)) (the (min_kb sf)))
        \<and> \<not> (truthy_num (max_kb sf) \<and> num_lt (the (max_kb sf)) (Fin (real (size_bytes (st f)) / 1024))))
       fs)"
  using assms by (induction fs arbitrary: acc) (simp_all add: Let_def)

lemma filterBySize_nonzero_bounds:
  assumes "\<forall>f \<in> set fs. statSync rt w f = Inr (st f)"
    and "lo \<noteq> 0" and "hi \<noteq> 0"
  shows "filterBySize rt w fs (Some \<lparr>min_kb = Some (Fin lo), max_kb = Some (Fin hi)\<rparr>) =
     Inr (filter (\<lambda>f. lo \<le> real (size_bytes (st f)) / 1024 \<and> real (size_bytes (st f)) / 1024 \<le> hi) fs)"
proof -
  have "filterBySize rt w fs (Some \<lparr>min_kb = Some (Fin lo), max_kb = Some (Fin hi)\<rparr>) =
     Inr ([] @ filter (\<lambda>f.
        \<not> (truthy_num (Some (Fin lo)) \<and> num_lt (Fin (real (size_bytes (st f)) / 1024)) (Fin lo))
        \<and> \<not> (truthy_num (Some (Fin hi)) \<and> num_lt (Fin hi) (Fin (real (size_bytes (st f)) / 1024))))
       fs)"
    using filterBySize_loop_filter [OF assms(1), of "\<lparr>min_kb = Some (Fin lo), max_kb = Some (Fin hi)\<rparr>" "[]"]
    by (simp add: filterBySize_def)
  also have "\<dots> = Inr (filter (\<lambda>f. lo \<le> real (size_bytes (st f)) / 1024
      \<and> real (size_bytes (st f)) / 1024 \<le> hi) fs)"
    using assms(2,3) by (simp add: truthy_num_def not_less)
  finally show ?thesis .
qed

text \<open>
  Claim C7 at the bound \<open>max = 0\<close>. The guard \<open>sizeFilter.max && ...\<close> reads a bound of zero as
  no bound: a file of 2048 bytes, two kilobytes, is above the maximum of zero kilobytes and is
  kept all the same.
\<close>

theorem filterBySize_zero_max:
  "statSync demo_runtime demo_world ''in/b.png''
     = Inr \<lparr>isDirectory = False, isFile = True, size_bytes = 2048\<rparr>
   \<and> num_lt (Fin 0) (Fin (real 2048 / 1024))
   \<and> filterBySize demo_runtime demo_world [''in/b.png'']
        (Some \<lparr>min_kb = None, max_kb = Some (Fin 0)\<rparr>) = Inr [''in/b.png'']"
  by (simp add: filterBySize_def runtime_eval)

subsection \<open>Overrides of the preset\<close>

lemma parseInt_0: "parseInt ''0'' = Fin 0"
  by (simp add: parseInt_def is_space_def is_digit_def digit_val_def digits_value_def Let_def)

lemma getPresetOptions_empty_name: "getPresetOptions [] = Map.empty"
  by (simp add: getPresetOptions_def)

lemma preset_part:
  "(if truthy_str p then getPresetOptions (the p) else Map.empty)
     = (case p of None \<Rightarrow> Map.empty | Some n \<Rightarrow> getPresetOptions n)"
  by (cases p) (simp_all add: truthy_str_def getPresetOptions_empty_name)

text \<open>
  Claim C9, as the code has it. In the bulk driver (the sequential loop and each chunk) the
  overrides of \<open>threshold\<close> and \<open>turdSize\<close> are tested for truthiness, so a supplied 0 is dropped
  and the preset's value stays (the default 128 or 2 of the converter when there is no preset);
  \<open>optCurve\<close> is compared with \<open>undefined\<close>, so \<open>false\<close> is kept. In the REST handler the fields
  are strings: any non-empty \<open>threshold\<close> or \<open>turdSize\<close>, the text \<open>0\<close> included, is parsed and
  kept; only an empty or missing field leaves the preset's value; \<open>optCurve\<close>, when sent, is set
  to whether the text is \<open>true\<close>.
\<close>

theorem override_truthiness:
  "(threshold options = Some (Fin 0) \<longrightarrow>
      js_get (convertSequentially_options options) ''threshold''
        = js_get (case preset options of None \<Rightarrow> Map.empty | Some p \<Rightarrow> getPresetOptions p) ''threshold''
      \<and> js_get (processChunk_options options) ''threshold''
        = js_get (case preset options of None \<Rightarrow> Map.empty | Some p \<Rightarrow> getPresetOptions p) ''threshold'')
   \<and> (turdSize options = Some (Fin 0) \<longrightarrow>
      js_get (convertSequentially_options options) ''turdSize''
        = js_get (case preset options of None \<Rightarrow> Map.empty | Some p \<Rightarrow> getPresetOptions p) ''turdSize''
      \<and> js_get (processChunk_options options) ''turdSize''
        = js_get (case preset options of None \<Rightarrow> Map.empty | Some p \<Rightarrow> getPresetOptions p) ''turdSize'')
   \<and> (threshold options = Some (Fin 0) \<and> turdSize options = Some (Fin 0) \<and> preset options = None \<longrightarrow>
      js_get (spread defaultOptions (convertSequentially_options options)) ''threshold'' = Num (Fin 128)
      \<and> js_get (spread defaultOptions (convertSequentially_options options)) ''turdSize'' = Num (Fin 2))
   \<and> (optCurve options = Some b \<longrightarrow>
      js_get (convertSequentially_options options) ''optCurve'' = Bool b
      \<and> js_get (processChunk_options options) ''optCurve'' = Bool b)
   \<and> (body ''threshold'' = Some t \<and> t \<noteq> [] \<longrightarrow>
      js_get (server_convert_options body) ''threshold'' = Num (parseInt t))
   \<and> (body ''turdSize'' = Some t \<and> t \<noteq> [] \<longrightarrow>
      js_get (server_convert_options body) ''turdSize'' = Num (parseInt t))
   \<and> parseInt ''0'' = Fin 0
   \<and> (body ''threshold'' = None \<or> body ''threshold'' = Some [] \<longrightarrow>
      js_get (server_convert_options body) ''threshold''
        = js_get (case body ''preset'' of None \<Rightarrow> Map.empty | Some p \<Rightarrow> getPresetOptions p) ''threshold'')
   \<and> (body ''optCurve'' = Some v \<longrightarrow>
      js_get (server_convert_options body) ''optCurve'' = Bool (v = ''true''))"
proof (intro conjI impI)
  assume "threshold options = Some (Fin 0)"
  then show "js_get (convertSequentially_options options) ''threshold''
        = js_get (case preset options of None \<Rightarrow> Map.empty | Some p \<Rightarrow> getPresetOptions p) ''threshold''"
    and "js_get (processChunk_options options) ''threshold''
        = js_get (case preset options of None \<Rightarrow> Map.empty | Some p \<Rightarrow> getPresetOptions p) ''threshold''"
    by (simp_all add: convertSequentially_options_def processChunk_options_def preset_part
        truthy_num_def js_get_def Let_def)
next
  assume "turdSize options = Some (Fin 0)"
  then show "js_get (convertSequentially_options options) ''turdSize''
        = js_get (case preset options of None \<Rightarrow> Map.empty | Some p \<Rightarrow> getPresetOptions p) ''turdSize''"
    and "js_get (processChunk_options options) ''turdSize''
        = js_get (case preset options of None \<Rightarrow> Map.empty | Some p \<Rightarrow> getPresetOptions p) ''turdSize''"
    by (simp_all add: convertSequentially_options_def processChunk_options_def preset_part
        truthy_num_def js_get_def Let_def)
next
  assume "threshold options = Some (Fin 0) \<and> turdSize options = Some (Fin 0) \<and> preset options = None"
  then show "js_get (spread defaultOptions (convertSequentially_options options)) ''threshold'' = Num (Fin 128)"
    and "js_get (spread defaultOptions (convertSequentially_options options)) ''turdSize'' = Num (Fin 2)"
    by (simp_all add: convertSequentially_options_def truthy_str_def truthy_num_def js_get_spread
        Let_def) (simp_all add: js_get_def defaultOptions_def)
next
  assume "optCurve options = Some b"
  then show "js_get (convertSequentially_options options) ''optCurve'' = Bool b"
    and "js_get (processChunk_options options) ''optCurve'' = Bool b"
    by (simp_all add: convertSequentially_options_def processChunk_options_def js_get_def Let_def)
next
  assume "body ''threshold'' = Some t \<and> t \<noteq> []"
  then show "js_get (server_convert_options body) ''threshold'' = Num (parseInt t)"
    by (simp add: server_convert_options_def truthy_str_def js_get_def Let_def)
next
  assume "body ''turdSize'' = Some t \<and> t \<noteq> []"
  then show "js_get (server_convert_options body) ''turdSize'' = Num (parseInt t)"
    by (simp add: server_convert_options_def truthy_str_def js_get_def Let_def)
next
  show "parseInt ''0'' = Fin 0" by (rule parseInt_0)
next
  assume "body ''threshold'' = None \<or> body ''threshold'' = Some []"
  then have "\<not> truthy_str (body ''threshold'')" by (auto simp: truthy_str_def)
  then show "js_get (server_convert_options body) ''threshold''
        = js_get (case body ''preset'' of None \<Rightarrow> Map.empty | Some p \<Rightarrow> getPresetOptions p) ''threshold''"
    by (cases "body ''preset''")
      (simp_all add: server_convert_options_def truthy_str_def getPresetOptions_empty_name
        spread_def js_get_def Let_def)
next
  assume "body ''optCurve'' = Some v"
  then show "js_get (server_convert_options body) ''optCurve'' = Bool (v = ''true'')"
    by (simp add: server_convert_options_def js_get_def Let_def)
qed

text \<open>
  Claim C9 as worded fails for the REST handler: the fields \<open>threshold=0\<close> and \<open>turdSize=0\<close>
  are kept, and the converter then runs with 0 in place of its defaults.
\<close>

theorem override_truthiness_counterexample:
  "js_get (server_convert_options [''threshold'' \<mapsto> ''0'', ''turdSize'' \<mapsto> ''0'']) ''threshold''
     = Num (Fin 0)
   \<and> js_get (server_convert_options [''threshold'' \<mapsto> ''0'', ''turdSize'' \<mapsto> ''0'']) ''turdSize''
     = Num (Fin 0)
   \<and> js_get (spread defaultOptions
        (server_convert_options [''threshold'' \<mapsto> ''0'', ''turdSize'' \<mapsto> ''0''])) ''threshold''
     \<noteq> js_get defaultOptions ''threshold''"
  by (simp add: server_convert_options_def truthy_str_def js_get_spread parseInt_0 Let_def)
     (simp add: js_get_def defaultOptions_def)


text \<open>
  Witness of C9: the photo preset with a supplied threshold and turdSize of 0 and optCurve
  false, in the bulk driver and in the REST handler.
\<close>

theorem override_truthiness_witness:
  "js_get (convertSequentially_options
       (plain_options\<lparr>preset := Some ''photo'', threshold := Some (Fin 0),
          turdSize := Some (Fin 0), optCurve := Some False\<rparr>)) ''threshold'' = Num (Fin 120)
   \<and> js_get (processChunk_options
       (plain_options\<lparr>preset := Some ''photo'', threshold := Some (Fin 0),
          turdSize := Some (Fin 0), optCurve := Some False\<rparr>)) ''turdSize'' = Num (Fin 4)
   \<and> js_get (convertSequentially_options
       (plain_options\<lparr>preset := Some ''photo'', threshold := Some (Fin 0),
          turdSize := Some (Fin 0), optCurve := Some False\<rparr>)) ''optCurve'' = Bool False
   \<and> js_get (spread defaultOptions (convertSequentially_options
       (plain_options\<lparr>threshold := Some (Fin 0), turdSize := Some (Fin 0)\<rparr>))) ''threshold''
       = Num (Fin 128)
   \<and> js_get (server_convert_options
       [''preset'' \<mapsto> ''photo'', ''threshold'' \<mapsto> ''0'', ''turdSize'' \<mapsto> ''0'',
        ''optCurve'' \<mapsto> ''false'']) ''threshold'' = Num (Fin 0)
   \<and> js_get (server_convert_options
       [''preset'' \<mapsto> ''photo'', ''threshold'' \<mapsto> ''0'', ''turdSize'' \<mapsto> ''0'',
        ''optCurve'' \<mapsto> ''false'']) ''turdSize'' = Num (Fin 0)
   \<and> js_get (server_convert_options
       [''preset'' \<mapsto> ''photo'', ''threshold'' \<mapsto> ''0'', ''turdSize'' \<mapsto> ''0'',
        ''optCurve'' \<mapsto> ''false'']) ''optCurve'' = Bool False
   \<and> js_get (server_convert_options [''preset'' \<mapsto> ''photo'', ''threshold'' \<mapsto> []]) ''threshold''
       = Num (Fin 120)"
proof -
  let ?O = "plain_options\<lparr>preset := Some ''photo'', threshold := Some (Fin 0),
          turdSize := Some (Fin 0), optCurve := Some False\<rparr>"
  let ?P = "plain_options\<lparr>threshold := Some (Fin 0), turdSize := Some (Fin 0)\<rparr>"
  let ?B = "[''preset'' \<mapsto> ''photo'', ''threshold'' \<mapsto> ''0'', ''turdSize'' \<mapsto> ''0'',
        ''optCurve'' \<mapsto> ''false'']"
  let ?C = "[''preset'' \<mapsto> ''photo'', ''threshold'' \<mapsto> []]"
  note T = override_truthiness [where options = ?O and b = False and body = ?B and t = "''0''"
      and v = "''false''"]
  note U = override_truthiness [where options = ?P]
  note V = override_truthiness [where body = ?C]
  have photo: "js_get (case preset ?O of None \<Rightarrow> Map.empty | Some p \<Rightarrow> getPresetOptions p) ''threshold''
      = Num (Fin 120)"
    "js_get (case preset ?O of None \<Rightarrow> Map.empty | Some p \<Rightarrow> getPresetOptions p) ''turdSize''
      = Num (Fin 4)"
    "js_get (case ?C ''preset'' of None \<Rightarrow> Map.empty | Some p \<Rightarrow> getPresetOptions p) ''threshold''
      = Num (Fin 120)"
    by (simp_all add: getPresetOptions_def js_get_def)
  have "js_get (convertSequentially_options ?O) ''threshold''
      = js_get (case preset ?O of None \<Rightarrow> Map.empty | Some p \<Rightarrow> getPresetOptions p) ''threshold''"
    by (rule T [THEN conjunct1, rule_format, THEN conjunct1]) simp
  then have 1: "js_get (convertSequentially_options ?O) ''threshold'' = Num (Fin 120)"
    by (simp only: photo)
  have "js_get (processChunk_options ?O) ''turdSize''
      = js_get (case preset ?O of None \<Rightarrow> Map.empty | Some p \<Rightarrow> getPresetOptions p) ''turdSize''"
    by (rule T [THEN conjunct2, THEN conjunct1, rule_format, THEN conjunct2]) simp
  then have 2: "js_get (processChunk_options ?O) ''turdSize'' = Num (Fin 4)"
    by (simp only: photo)
  have 3: "js_get (convertSequentially_options ?O) ''optCurve'' = Bool False"
    by (rule T [THEN conjunct2, THEN conjunct2, THEN conjunct2, THEN conjunct1, rule_format,
          THEN conjunct1]) simp
  have 4: "js_get (spread defaultOptions (convertSequentially_options ?P)) ''threshold'' = Num (Fin 128)"
    by (rule U [THEN conjunct2, THEN conjunct2, THEN conjunct1, rule_format, THEN conjunct1])
       (simp add: plain_options_def)
  have "js_get (server_convert_options ?B) ''threshold'' = Num (parseInt ''0'')"
    by (rule T [THEN conjunct2, THEN conjunct2, THEN conjunct2, THEN conjunct2, THEN conjunct1,
          rule_format]) simp
  then have 5: "js_get (server_convert_options ?B) ''threshold'' = Num (Fin 0)"
    by (simp only: parseInt_0)
  have "js_get (server_convert_options ?B) ''turdSize'' = Num (parseInt ''0'')"
    by (rule T [THEN conjunct2, THEN conjunct2, THEN conjunct2, THEN conjunct2, THEN conjunct2,
          THEN conjunct1, rule_format]) simp
  then have 6: "js_get (server_convert_options ?B) ''turdSize'' = Num (Fin 0)"
    by (simp only: parseInt_0)
  have "js_get (server_convert_options ?B) ''optCurve'' = Bool (''false'' = ''true'')"
    by (rule T [THEN conjunct2, THEN conjunct2, THEN conjunct2, THEN conjunct2, THEN conjunct2,
          THEN conjunct2, THEN conjunct2, THEN conjunct2, rule_format]) simp
  then have 7: "js_get (server_convert_options ?B) ''optCurve'' = Bool False"
    by simp
  have "js_get (server_convert_options ?C) ''threshold''
      = js_get (case ?C ''preset'' of None \<Rightarrow> Map.empty | Some p \<Rightarrow> getPresetOptions p) ''threshold''"
    by (rule V [THEN conjunct2, THEN conjunct2, THEN conjunct2, THEN conjunct2, THEN conjunct2,
          THEN conjunct2, THEN conjunct2, THEN conjunct1, rule_format]) simp
  then have 8: "js_get (server_convert_options ?C) ''threshold'' = Num (Fin 120)"
    by (simp only: photo)
  from 1 2 3 4 5 6 7 8 show ?thesis by (intro conjI)
qed

end
